theory Spec2Isabelle
  imports Main
begin

section \<open>Values exchanged with the TryCP server\<close>

text \<open>
  The embedding follows \<^verbatim>\<open>ts/src/trycp/trycp-client.ts\<close> (the first, newer client
  of that file), the TryCP conductor and \<^verbatim>\<open>common.ts\<close>.  Byte arrays are lists of
  numbers.  The msgpack codec and the helpers of \<^verbatim>\<open>util.ts\<close> are not part of the
  sources: a received frame is represented by what \<^verbatim>\<open>deserializeTryCpResponse\<close>,
  \<^verbatim>\<open>deserializeTryCpSignal\<close> and \<^verbatim>\<open>deserializeApiResponse\<close> return on it, a
  thrown exception being the left summand; a sent call is represented by the
  \<^verbatim>\<open>_TryCpCall\<close> object handed to the encoder.
\<close>

type_synonym bytes = "nat list"

type_synonym cellId = "bytes \<times> bytes"

type_synonym signal = bytes

text \<open>Values that JavaScript code here throws or rejects a promise with.\<close>

datatype thrown =
    Error string
  | TypeError string
  | AssertionError string
  | Reason string

datatype appBundleSource = Bundle bytes | Path string

record installAppRequest =
  ia_source :: appBundleSource
  ia_agent_key :: bytes
  ia_membrane_proofs :: "(string \<times> bytes) list"
  ia_installed_app_id :: string
  ia_network_seed :: "string option"

record callZomeRequest =
  cz_cell_id :: cellId
  cz_zome_name :: string
  cz_fn_name :: string
  cz_provenance :: bytes
  cz_cap_secret :: "bytes option"
  cz_payload :: "bytes option"

record callZomeRequestSigned =
  sg_request :: callZomeRequest
  sg_nonce :: bytes
  sg_expires_at :: nat
  sg_signature :: bytes

datatype adminMessage =
    GenerateAgentPubKeyMsg
  | InstallAppMsg installAppRequest
  | EnableAppMsg string
  | AttachAppInterfaceMsg nat
  | AgentInfoMsg "cellId option"
  | AddAgentInfoMsg "bytes list"

datatype appMessage =
    CallZomeMsg callZomeRequestSigned
  | AppInfoMsg string

datatype tryCpRequest =
    ConfigurePlayer string string
  | Startup string
  | Shutdown string
  | ConnectAppInterface nat
  | DisconnectAppInterface nat
  | CallAdminInterface string adminMessage
  | CallAppInterface nat appMessage

record provisionedCell =
  pc_cell_id :: cellId
  pc_name :: string

record clonedCell =
  cc_cell_id :: cellId
  cc_clone_id :: string
  cc_name :: string

datatype cellInfo = Provisioned provisionedCell | Cloned clonedCell | Stem

record appInfo =
  ai_installed_app_id :: string
  ai_cell_info :: "(string \<times> cellInfo list) list"

record enableAppResponse =
  ea_app :: appInfo
  ea_errors :: "(cellId \<times> string) list"

text \<open>A deserialised Admin or App API response, by its \<^verbatim>\<open>type\<close> field.\<close>

datatype apiResponse =
    ApiError string
  | AgentPubKeyGenerated bytes
  | AppInstalled appInfo
  | AppEnabled enableAppResponse
  | AppInterfaceAttached nat
  | AgentInfoResponse "bytes list"
  | AgentInfoAdded
  | ZomeCalled bytes
  | OtherApiResponse string

text \<open>
  \<^verbatim>\<open>_TryCpSuccessResponseSeralized\<close>: \<^verbatim>\<open>null\<close>, a string, or bytes, the bytes
  carrying what \<^verbatim>\<open>deserializeApiResponse\<close> makes of them.
\<close>

datatype serialized =
    SerNull
  | SerString string
  | SerBytes "string + apiResponse"

datatype successResponse =
    SuccessNull
  | SuccessString string
  | SuccessApi apiResponse

text \<open>
  The \<^verbatim>\<open>response\<close> object of a response wrapper: it has a property \<^verbatim>\<open>0\<close>,
  or else a property \<^verbatim>\<open>1\<close>, or neither.
\<close>

datatype responseBody =
    Success0 serialized
  | Error1 string
  | UnknownBody

text \<open>
  What \<^verbatim>\<open>deserializeTryCpResponse\<close> returns: a wrapper of type \<^verbatim>\<open>signal\<close>
  (with the port and the data, the data carrying what \<^verbatim>\<open>deserializeTryCpSignal\<close>
  makes of them), of type \<^verbatim>\<open>response\<close>, or of another type.
\<close>

datatype responseWrapper =
    SignalWrapper nat "string + signal"
  | ResponseWrapper nat responseBody
  | OtherWrapper

section \<open>The TryCP client\<close>

datatype settlement =
    Pending
  | Fulfilled successResponse
  | Rejected thrown

text \<open>
  What the client does to the outside, in the order it does it: \<^verbatim>\<open>ws.send\<close> of a
  call, a call of the \<^verbatim>\<open>responseResolve\<close> or \<^verbatim>\<open>responseReject\<close> function of a
  promise, the \<^verbatim>\<open>delete\<close> of a key of \<^verbatim>\<open>requestPromises\<close>, a call of a signal
  handler, and \<^verbatim>\<open>ws.close\<close>.
\<close>

datatype effect =
    WsSend nat tryCpRequest
  | ResponseResolve nat successResponse
  | ResponseReject nat thrown
  | Delete nat
  | SignalHandlerCall nat signal
  | WsClose nat

datatype logEntry =
    ConsoleError thrown
  | LoggerInfo string
  | LoggerError string

text \<open>
  A promise created by \<^verbatim>\<open>call\<close> is a position in \<^verbatim>\<open>promises\<close>; the pair of its
  resolve and reject functions stored in \<^verbatim>\<open>requestPromises\<close> is that position.  A
  signal handler is a number naming the callback.  Debug and verbose log lines are left
  out; \<^verbatim>\<open>logger.info\<close>, \<^verbatim>\<open>logger.error\<close> and \<^verbatim>\<open>console.error\<close> are recorded.
\<close>

record tryCpClient =
  requestPromises :: "nat \<rightharpoonup> nat"
  signalHandlers :: "nat \<rightharpoonup> nat"
  promises :: "settlement list"
  effects :: "effect list"
  logs :: "logEntry list"

definition newTryCpClient :: tryCpClient where
  "newTryCpClient =
     \<lparr>requestPromises = Map.empty, signalHandlers = Map.empty, promises = [],
      effects = [], logs = []\<rparr>"

text \<open>
  \<^verbatim>\<open>TryCpClient.create\<close>: the connect promise resolves with the new client when the
  socket opens and rejects with the socket's error otherwise.
\<close>

definition create :: "thrown option \<Rightarrow> thrown + tryCpClient" where
  "create connectError =
     (case connectError of None \<Rightarrow> Inr newTryCpClient | Some err \<Rightarrow> Inl err)"

definition setSignalHandler :: "tryCpClient \<Rightarrow> nat \<Rightarrow> nat option \<Rightarrow> tryCpClient" where
  "setSignalHandler c port signalHandler =
     c\<lparr>signalHandlers := (signalHandlers c)(port := signalHandler)\<rparr>"

text \<open>Resolving or rejecting a promise that is already settled has no effect.\<close>

definition settle :: "nat \<Rightarrow> settlement \<Rightarrow> settlement list \<Rightarrow> settlement list" where
  "settle h s ps = (if h < length ps \<and> ps ! h = Pending then ps[h := s] else ps)"

definition responseResolve :: "nat \<Rightarrow> successResponse \<Rightarrow> tryCpClient \<Rightarrow> tryCpClient" where
  "responseResolve h v c =
     c\<lparr>promises := settle h (Fulfilled v) (promises c),
       effects := effects c @ [ResponseResolve h v]\<rparr>"

definition responseReject :: "nat \<Rightarrow> thrown \<Rightarrow> tryCpClient \<Rightarrow> tryCpClient" where
  "responseReject h e c =
     c\<lparr>promises := settle h (Rejected e) (promises c),
       effects := effects c @ [ResponseReject h e]\<rparr>"

definition deleteRequestPromise :: "nat \<Rightarrow> tryCpClient \<Rightarrow> tryCpClient" where
  "deleteRequestPromise i c =
     c\<lparr>requestPromises := (requestPromises c)(i := None),
       effects := effects c @ [Delete i]\<rparr>"

definition consoleError :: "thrown \<Rightarrow> tryCpClient \<Rightarrow> tryCpClient" where
  "consoleError e c = c\<lparr>logs := logs c @ [ConsoleError e]\<rparr>"

text \<open>
  \<^verbatim>\<open>processSuccessResponse\<close>.  What it throws is always an \<^verbatim>\<open>Error\<close> object, so
  the handler's branch for other thrown values is never taken.
\<close>

fun processSuccessResponse :: "serialized \<Rightarrow> thrown + successResponse" where
  "processSuccessResponse SerNull = Inr SuccessNull"
| "processSuccessResponse (SerString s) = Inr (SuccessString s)"
| "processSuccessResponse (SerBytes (Inl msg)) = Inl (Error msg)"
| "processSuccessResponse (SerBytes (Inr (ApiError d))) =
     Inl (Error (''error response from Admin API'' @ [CHR 0x0A] @ d))"
| "processSuccessResponse (SerBytes (Inr r)) = Inr (SuccessApi r)"

text \<open>
  The handler of the socket's \<^verbatim>\<open>message\<close> event.  The argument is the result of
  \<^verbatim>\<open>deserializeTryCpResponse\<close> on the frame.  Every exception raised inside is caught
  by the handler's outer \<^verbatim>\<open>try\<close> and printed with \<^verbatim>\<open>console.error\<close>; destructuring
  the missing entry of an unknown id is such an exception.  A signal handler is taken to
  return normally and not to call the client.
\<close>

definition onMessage :: "tryCpClient \<Rightarrow> string + responseWrapper \<Rightarrow> tryCpClient" where
  "onMessage c frame =
     (case frame of
        Inl msg \<Rightarrow> consoleError (Error msg) c
      | Inr (SignalWrapper port sdata) \<Rightarrow>
          (case signalHandlers c port of
             Some signalHandler \<Rightarrow>
               (case sdata of
                  Inl msg \<Rightarrow> consoleError (Error msg) c
                | Inr sig \<Rightarrow> c\<lparr>effects := effects c @ [SignalHandlerCall signalHandler sig]\<rparr>)
           | None \<Rightarrow>
               c\<lparr>logs := logs c @
                 [LoggerInfo ''received signal from TryCP server, but no signal handler registered'']\<rparr>)
      | Inr (ResponseWrapper i body) \<Rightarrow>
          (case requestPromises c i of
             None \<Rightarrow>
               consoleError (TypeError ''Cannot destructure property responseResolve of undefined'') c
           | Some h \<Rightarrow>
               (case body of
                  Success0 ser \<Rightarrow>
                    (case processSuccessResponse ser of
                       Inr innerResponse \<Rightarrow> deleteRequestPromise i (responseResolve h innerResponse c)
                     | Inl err \<Rightarrow> deleteRequestPromise i (responseReject h err c))
                | Error1 r \<Rightarrow> deleteRequestPromise i (responseReject h (Reason r) c)
                | UnknownBody \<Rightarrow>
                    consoleError (Error ''Unknown response type'')
                      (c\<lparr>logs := logs c @ [LoggerError ''unknown response type'']\<rparr>)))
      | Inr OtherWrapper \<Rightarrow> c)"

definition onMessages :: "tryCpClient \<Rightarrow> (string + responseWrapper) list \<Rightarrow> tryCpClient" where
  "onMessages c frames = foldl onMessage c frames"

text \<open>
  \<^verbatim>\<open>close\<close>: asks the socket to close with code 1000 and resolves with the code of
  the socket's \<^verbatim>\<open>close\<close> event.
\<close>

definition close :: "tryCpClient \<Rightarrow> nat \<Rightarrow> tryCpClient \<times> nat" where
  "close c code = (c\<lparr>effects := effects c @ [WsClose 1000]\<rparr>, code)"

text \<open>
  \<^verbatim>\<open>call\<close>: \<^verbatim>\<open>requestId\<close> is a variable of the module, not of the client, so it is
  passed in and handed back incremented.  The result holds the new counter, the client
  and the promise returned.  The counter is a natural number (the JavaScript number counts
  exactly up to \<open>2 ^ 53\<close>), and the socket is taken to accept the message.
\<close>

definition call :: "nat \<Rightarrow> tryCpClient \<Rightarrow> tryCpRequest \<Rightarrow> nat \<times> tryCpClient \<times> nat" where
  "call requestId c request =
     (let callPromise = length (promises c);
          c1 = c\<lparr>promises := promises c @ [Pending],
                 requestPromises := (requestPromises c)(requestId \<mapsto> callPromise)\<rparr>;
          c2 = c1\<lparr>effects := effects c1 @ [WsSend requestId request]\<rparr>
      in (requestId + 1, c2, callPromise))"

text \<open>Several calls made one after the other, with the promises they return.\<close>

fun calls :: "nat \<Rightarrow> tryCpClient \<Rightarrow> tryCpRequest list \<Rightarrow> nat \<times> tryCpClient \<times> nat list" where
  "calls requestId c [] = (requestId, c, [])"
| "calls requestId c (request # requests) =
     (case call requestId c request of
        (requestId', c', p) \<Rightarrow>
          (case calls requestId' c' requests of
             (requestId'', c'', ps) \<Rightarrow> (requestId'', c'', p # ps)))"

section \<open>The TryCP conductor\<close>

text \<open>
  Objects that the code shares by reference live in stores: the clients and the
  conductors are numbered, and a conductor holds the number of its client.  The variable
  \<^verbatim>\<open>requestId\<close> of the client's module and the signing credentials kept by the
  Holochain client library are part of the same state.
\<close>

record tryCpConductor =
  conductorId :: string
  appInterfacePort :: "nat option"
  tryCpClient :: nat

record signingCredentials =
  capSecret :: bytes
  keyPair :: bytes
  signingKey :: bytes

record world =
  requestId :: nat
  clients :: "nat \<Rightarrow> tryCpClient"
  conductors :: "nat \<Rightarrow> tryCpConductor"
  credentials :: "cellId \<rightharpoonup> signingCredentials"

text \<open>
  The result of an asynchronous function: its promise is fulfilled, is rejected, or is
  never settled.
\<close>

datatype 'a outcome = Returned 'a | Threw thrown | Hangs

text \<open>
  The server is a parameter: for the call with a given id it says which response body
  it sends back, or \<open>None\<close> when it never answers.
\<close>

type_synonym remote = "nat \<Rightarrow> tryCpRequest \<Rightarrow> responseBody option"

definition andThen ::
  "world \<times> 'a outcome \<Rightarrow> ('a \<Rightarrow> world \<Rightarrow> world \<times> 'b outcome) \<Rightarrow> world \<times> 'b outcome" where
  "andThen m f =
     (case m of
        (w, Returned a) \<Rightarrow> f a w
      | (w, Threw e) \<Rightarrow> (w, Threw e)
      | (w, Hangs) \<Rightarrow> (w, Hangs))"

text \<open>\<^verbatim>\<open>tryCpClient.call\<close> on the client numbered \<open>k\<close>.\<close>

definition clientCall :: "world \<Rightarrow> nat \<Rightarrow> tryCpRequest \<Rightarrow> world \<times> nat" where
  "clientCall w k request =
     (case call (requestId w) (clients w k) request of
        (requestId', c', p) \<Rightarrow> (w\<lparr>requestId := requestId', clients := (clients w)(k := c')\<rparr>, p))"

text \<open>The \<^verbatim>\<open>message\<close> event of the client numbered \<open>k\<close>.\<close>

definition clientMessage :: "world \<Rightarrow> nat \<Rightarrow> string + responseWrapper \<Rightarrow> world" where
  "clientMessage w k frame = w\<lparr>clients := (clients w)(k := onMessage (clients w k) frame)\<rparr>"

text \<open>
  Waiting for the promise \<open>p\<close> of the call with id \<open>i\<close> made on client \<open>k\<close>:
  the server's response frame for the id, if any, is handled, and the awaiting code goes
  on with the settlement of the promise.  No other frame is taken to arrive before.
\<close>

definition awaitResponse ::
  "remote \<Rightarrow> world \<Rightarrow> nat \<Rightarrow> nat \<Rightarrow> tryCpRequest \<Rightarrow> nat \<Rightarrow> world \<times> successResponse outcome" where
  "awaitResponse remote w k i request p =
     (case remote i request of
        None \<Rightarrow> (w, Hangs)
      | Some body \<Rightarrow>
          (let w2 = clientMessage w k (Inr (ResponseWrapper i body))
           in case promises (clients w2 k) ! p of
                Fulfilled v \<Rightarrow> (w2, Returned v)
              | Rejected e \<Rightarrow> (w2, Threw e)
              | Pending \<Rightarrow> (w2, Hangs)))"

text \<open>\<^verbatim>\<open>await tryCpClient.call(request)\<close>.\<close>

definition awaitCall ::
  "remote \<Rightarrow> world \<Rightarrow> nat \<Rightarrow> tryCpRequest \<Rightarrow> world \<times> successResponse outcome" where
  "awaitCall remote w k request =
     (case clientCall w k request of
        (w1, p) \<Rightarrow> awaitResponse remote w1 k (requestId w) request p)"

text \<open>
  \<^verbatim>\<open>callAdminApi\<close>: the request it builds, the two assertions on the response, and
  the whole.
\<close>

definition adminRequest :: "world \<Rightarrow> nat \<Rightarrow> adminMessage \<Rightarrow> tryCpRequest" where
  "adminRequest w this message = CallAdminInterface (conductorId (conductors w this)) message"

definition assertApiResponse :: "successResponse \<Rightarrow> world \<Rightarrow> world \<times> apiResponse outcome" where
  "assertApiResponse response w' =
     (case response of
        SuccessNull \<Rightarrow> (w', Threw (AssertionError ''response !== TRYCP_SUCCESS_RESPONSE''))
      | SuccessString s \<Rightarrow> (w', Threw (AssertionError ''typeof response !== string''))
      | SuccessApi r \<Rightarrow> (w', Returned r))"

definition callAdminApi ::
  "remote \<Rightarrow> world \<Rightarrow> nat \<Rightarrow> adminMessage \<Rightarrow> world \<times> apiResponse outcome" where
  "callAdminApi remote w this message =
     andThen
       (awaitCall remote w (tryCpClient (conductors w this)) (adminRequest w this message))
       assertApiResponse"




text \<open>
  \<^verbatim>\<open>attachAppInterface\<close>: without a request the port is the one \<^verbatim>\<open>getPort\<close> finds
  free between 30000 and 40000, here the parameter \<open>freePort\<close>.
\<close>

definition attachAppInterface ::
  "remote \<Rightarrow> nat \<Rightarrow> world \<Rightarrow> nat \<Rightarrow> nat option \<Rightarrow> world \<times> nat outcome" where
  "attachAppInterface remote freePort w this request =
     (let port = (case request of Some p \<Rightarrow> p | None \<Rightarrow> freePort)
      in andThen (callAdminApi remote w this (AttachAppInterfaceMsg port))
           (\<lambda>response w'.
              case response of
                AppInterfaceAttached attached \<Rightarrow>
                  (w'\<lparr>conductors := (conductors w')
                        (this := (conductors w' this)\<lparr>appInterfacePort := Some port\<rparr>)\<rparr>,
                   Returned attached)
              | _ \<Rightarrow> (w', Threw (AssertionError ''response.type === app_interface_attached''))))"

definition assertAgentInfo :: "apiResponse \<Rightarrow> world \<Rightarrow> world \<times> bytes list outcome" where
  "assertAgentInfo response w' =
     (case response of
        AgentInfoResponse infos \<Rightarrow> (w', Returned infos)
      | _ \<Rightarrow> (w', Threw (AssertionError ''response.type === agent_info'')))"

definition agentInfo ::
  "remote \<Rightarrow> world \<Rightarrow> nat \<Rightarrow> cellId option \<Rightarrow> world \<times> bytes list outcome" where
  "agentInfo remote w this cell =
     andThen (callAdminApi remote w this (AgentInfoMsg cell)) assertAgentInfo"

definition addAgentInfo ::
  "remote \<Rightarrow> world \<Rightarrow> nat \<Rightarrow> bytes list \<Rightarrow> world \<times> unit outcome" where
  "addAgentInfo remote w this agent_infos =
     andThen (callAdminApi remote w this (AddAgentInfoMsg agent_infos))
       (\<lambda>response w'.
          case response of
            AgentInfoAdded \<Rightarrow> (w', Returned ())
          | _ \<Rightarrow> (w', Threw (AssertionError ''response.type === agent_info_added'')))"

text \<open>\<^verbatim>\<open>assert(this.appInterfacePort)\<close> fails on \<^verbatim>\<open>undefined\<close> and on the number 0.\<close>

definition callAppApi ::
  "remote \<Rightarrow> world \<Rightarrow> nat \<Rightarrow> appMessage \<Rightarrow> world \<times> apiResponse outcome" where
  "callAppApi remote w this message =
     (case appInterfacePort (conductors w this) of
        None \<Rightarrow> (w, Threw (AssertionError ''No App interface attached to conductor''))
      | Some port \<Rightarrow>
          if port = 0 then (w, Threw (AssertionError ''No App interface attached to conductor''))
          else
            andThen
              (awaitCall remote w (tryCpClient (conductors w this)) (CallAppInterface port message))
              assertApiResponse)"

text \<open>
  How a template literal prints a cell id, an array of two byte arrays: the decimal
  numbers, all joined by commas.
\<close>

fun decimal :: "nat \<Rightarrow> string" where
  "decimal n =
     (if n < 10 then [''0123456789'' ! n] else decimal (n div 10) @ [''0123456789'' ! (n mod 10)])"

fun joinComma :: "string list \<Rightarrow> string" where
  "joinComma [] = []"
| "joinComma [x] = x"
| "joinComma (x # y # ys) = x @ '','' @ joinComma (y # ys)"

definition cellIdToString :: "cellId \<Rightarrow> string" where
  "cellIdToString cell =
     joinComma [joinComma (map decimal (fst cell)), joinComma (map decimal (snd cell))]"

text \<open>The bytes of the \<^verbatim>\<open>data\<close> field of a response, when it has one that is a byte array.\<close>

fun responseDataBytes :: "apiResponse \<Rightarrow> bytes option" where
  "responseDataBytes (AgentPubKeyGenerated b) = Some b"
| "responseDataBytes (ZomeCalled b) = Some b"
| "responseDataBytes _ = None"

text \<open>
  \<^verbatim>\<open>appWs().callZome\<close>.  A request with a \<^verbatim>\<open>signature\<close> is the right summand.
  \<^verbatim>\<open>signZomeCall\<close> belongs to the Holochain client library and is awaited: the
  parameter gives what it resolves with, or as the left summand what it rejects with.
  The function declares the request as its only parameter.  The result is the byte array
  of the response, before \<^verbatim>\<open>deserializeZomeResponsePayload\<close>.
\<close>

definition callZome ::
  "remote \<Rightarrow> (callZomeRequest \<Rightarrow> thrown + callZomeRequestSigned) \<Rightarrow> world \<Rightarrow> nat \<Rightarrow>
   callZomeRequest + callZomeRequestSigned \<Rightarrow> world \<times> bytes outcome" where
  "callZome remote signZomeCall w this request =
     andThen
       (case request of
          Inr signed \<Rightarrow> (w, Returned signed)
        | Inl unsigned \<Rightarrow>
            (case credentials w (cz_cell_id unsigned) of
               None \<Rightarrow>
                 (w, Threw (Error
                    (''cannot sign zome call: no signing credentials have been authorized for cell '' @
                     cellIdToString (cz_cell_id unsigned))))
             | Some signingCredentials \<Rightarrow>
                 (case signZomeCall unsigned of
                    Inl err \<Rightarrow> (w, Threw err)
                  | Inr signedZomeCall \<Rightarrow> (w, Returned signedZomeCall))))
       (\<lambda>signedRequest w1.
          andThen (callAppApi remote w1 this (CallZomeMsg signedRequest))
            (\<lambda>response w2.
               case responseDataBytes response of
                 None \<Rightarrow> (w2, Threw (AssertionError ''data in response''))
               | Some b \<Rightarrow> (w2, Returned b)))"

section \<open>Installing an app\<close>

record cellZomeCallRequest =
  rq_zome_name :: string
  rq_fn_name :: string
  rq_payload :: "bytes option"
  rq_provenance :: "bytes option"

datatype installedCell = ProvisionedCell provisionedCell | ClonedCell clonedCell

fun cellIdOf :: "installedCell \<Rightarrow> cellId" where
  "cellIdOf (ProvisionedCell pc) = pc_cell_id pc"
| "cellIdOf (ClonedCell cl) = cc_cell_id cl"

text \<open>
  A callable cell is the cell's own fields together with the \<^verbatim>\<open>callZome\<close> closure,
  which is given by the three values it captures.
\<close>

record callableCell =
  cl_cell :: installedCell
  cl_conductor :: nat
  cl_agentPubKey :: bytes

definition getCallableCell :: "nat \<Rightarrow> installedCell \<Rightarrow> bytes \<Rightarrow> callableCell" where
  "getCallableCell conductor cell agentPubKey =
     \<lparr>cl_cell = cell, cl_conductor = conductor, cl_agentPubKey = agentPubKey\<rparr>"

text \<open>
  The \<^verbatim>\<open>callZome\<close> of a callable cell.  It hands its \<^verbatim>\<open>timeout\<close> to the
  conductor's \<^verbatim>\<open>callZome\<close> as a second argument; the TryCP conductor's function has
  one parameter, so the argument is discarded.
\<close>

definition cellRequest :: "callableCell \<Rightarrow> cellZomeCallRequest \<Rightarrow> callZomeRequest" where
  "cellRequest cell request =
     \<lparr>cz_cell_id = cellIdOf (cl_cell cell),
      cz_zome_name = rq_zome_name request,
      cz_fn_name = rq_fn_name request,
      cz_provenance =
        (case rq_provenance request of Some p \<Rightarrow> p | None \<Rightarrow> cl_agentPubKey cell),
      cz_cap_secret = None,
      cz_payload = rq_payload request\<rparr>"

definition cellCallZome ::
  "remote \<Rightarrow> (callZomeRequest \<Rightarrow> thrown + callZomeRequestSigned) \<Rightarrow> world \<Rightarrow> callableCell \<Rightarrow>
   cellZomeCallRequest \<Rightarrow> nat option \<Rightarrow> world \<times> bytes outcome" where
  "cellCallZome remote signZomeCall w cell request timeout =
     callZome remote signZomeCall w (cl_conductor cell) (Inl (cellRequest cell request))"

record agentApp =
  appId :: string
  agentPubKey :: bytes
  cells :: "callableCell list"
  namedCells :: "string \<rightharpoonup> callableCell"









section \<open>Exchanging agent infos\<close>

text \<open>
  \<^verbatim>\<open>addAllAgentsToAllConductors\<close> maps an asynchronous function over the conductors
  and waits for all its promises.  Each instance runs up to its first \<^verbatim>\<open>await\<close> at
  once, so all \<^verbatim>\<open>agent_info\<close> calls are sent first, in the order of the list.
\<close>

fun startAgentInfos :: "world \<Rightarrow> nat list \<Rightarrow> world \<times> (nat \<times> nat \<times> tryCpRequest) list" where
  "startAgentInfos w [] = (w, [])"
| "startAgentInfos w (playerToShareAbout # rest) =
     (let request = adminRequest w playerToShareAbout (AgentInfoMsg None)
      in case clientCall w (tryCpClient (conductors w playerToShareAbout)) request of
           (w1, p) \<Rightarrow>
             (case startAgentInfos w1 rest of
                (w2, started) \<Rightarrow> (w2, (requestId w, p, request) # started)))"

text \<open>
  The inner map: \<^verbatim>\<open>addAgentInfo\<close> is called on every conductor at another position,
  and its promise is neither awaited nor returned, so of each call only the part up to
  its first \<^verbatim>\<open>await\<close> belongs to the function: the request is sent.
\<close>

fun shareWith :: "world \<Rightarrow> nat \<Rightarrow> bytes list \<Rightarrow> (nat \<times> nat) list \<Rightarrow> world" where
  "shareWith w playerToShareAboutIdx agentInfosToShareAbout [] = w"
| "shareWith w playerToShareAboutIdx agentInfosToShareAbout
     ((playerToShareWithIdx, playerToShareWith) # rest) =
     (if playerToShareAboutIdx \<noteq> playerToShareWithIdx
      then shareWith
             (fst (clientCall w (tryCpClient (conductors w playerToShareWith))
                (adminRequest w playerToShareWith (AddAgentInfoMsg agentInfosToShareAbout))))
             playerToShareAboutIdx agentInfosToShareAbout rest
      else shareWith w playerToShareAboutIdx agentInfosToShareAbout rest)"

text \<open>
  The instances go on as their \<^verbatim>\<open>agent_info\<close> responses arrive, here in the order
  of the calls and before any response to an \<^verbatim>\<open>add_agent_info\<close> call.  The first
  rejection rejects the whole; an instance that never gets its response keeps the whole
  from resolving.
\<close>

fun shareAbout ::
  "remote \<Rightarrow> world \<Rightarrow> nat list \<Rightarrow> (nat \<times> nat \<times> nat \<times> nat \<times> tryCpRequest) list \<Rightarrow> bool \<Rightarrow>
   world \<times> unit outcome" where
  "shareAbout remote w players [] hung = (w, if hung then Hangs else Returned ())"
| "shareAbout remote w players ((playerToShareAboutIdx, playerToShareAbout, i, p, request) # rest) hung =
     (case andThen
             (andThen
                (awaitResponse remote w (tryCpClient (conductors w playerToShareAbout)) i request p)
                assertApiResponse)
             assertAgentInfo of
        (w1, Returned agentInfosToShareAbout) \<Rightarrow>
          shareAbout remote
            (shareWith w1 playerToShareAboutIdx agentInfosToShareAbout
               (zip [0..<length players] players))
            players rest hung
      | (w1, Threw e) \<Rightarrow> (w1, Threw e)
      | (w1, Hangs) \<Rightarrow> shareAbout remote w1 players rest True)"

definition addAllAgentsToAllConductors :: "remote \<Rightarrow> world \<Rightarrow> nat list \<Rightarrow> world \<times> unit outcome" where
  "addAllAgentsToAllConductors remote w players =
     (case startAgentInfos w players of
        (w1, started) \<Rightarrow>
          shareAbout remote w1 players (zip [0..<length players] (zip players started)) False)"

section \<open>Notions used in the statements\<close>

text \<open>
  The outcome that a response body stands for: the settlement it gives to the promise of
  its request (none for a body with neither property), and the call of the promise's
  resolve or reject function that brings it about.
\<close>

definition settlementOf :: "responseBody \<Rightarrow> settlement" where
  "settlementOf body =
     (case body of
        Success0 ser \<Rightarrow>
          (case processSuccessResponse ser of Inr v \<Rightarrow> Fulfilled v | Inl e \<Rightarrow> Rejected e)
      | Error1 r \<Rightarrow> Rejected (Reason r)
      | UnknownBody \<Rightarrow> Pending)"

definition settleEffect :: "nat \<Rightarrow> responseBody \<Rightarrow> effect list" where
  "settleEffect h body =
     (case settlementOf body of
        Fulfilled v \<Rightarrow> [ResponseResolve h v]
      | Rejected e \<Rightarrow> [ResponseReject h e]
      | Pending \<Rightarrow> [])"

text \<open>A response frame, given by its id and body.\<close>

definition responseFrame :: "nat \<times> responseBody \<Rightarrow> string + responseWrapper" where
  "responseFrame r = Inr (ResponseWrapper (fst r) (snd r))"

text \<open>An effect is a call of the resolve or reject function of promise \<open>h\<close>.\<close>

fun settles :: "nat \<Rightarrow> effect \<Rightarrow> bool" where
  "settles h (ResponseResolve h' v) = (h' = h)"
| "settles h (ResponseReject h' e) = (h' = h)"
| "settles h _ = False"

text \<open>The ids of the calls sent, in the order of sending.\<close>

fun sentIds :: "effect list \<Rightarrow> nat list" where
  "sentIds [] = []"
| "sentIds (WsSend i request # es) = i # sentIds es"
| "sentIds (e # es) = sentIds es"

text \<open>Two clients that differ at most in what they have logged.\<close>

definition agreeButLogs :: "tryCpClient \<Rightarrow> tryCpClient \<Rightarrow> bool" where
  "agreeButLogs c d \<longleftrightarrow>
     requestPromises c = requestPromises d \<and> signalHandlers c = signalHandlers d \<and>
     promises c = promises d \<and> effects c = effects d"

text \<open>Calls made one after the other on several clients: each with the client's number.\<close>

fun clientCalls :: "world \<Rightarrow> (nat \<times> tryCpRequest) list \<Rightarrow> world" where
  "clientCalls w [] = w"
| "clientCalls w ((k, request) # rest) = clientCalls (fst (clientCall w k request)) rest"

text \<open>
  The constructor of the conductor: the id given, or else \<^verbatim>\<open>conductor-\<close> followed by
  what \<^verbatim>\<open>uuidv4()\<close> returns; no app interface port yet.
\<close>

definition newTryCpConductor :: "nat \<Rightarrow> string option \<Rightarrow> string \<Rightarrow> tryCpConductor" where
  "newTryCpConductor client name uuid =
     \<lparr>conductorId =
        (case name of
           Some i \<Rightarrow> if i \<noteq> [] then i else ''conductor-'' @ uuid
         | None \<Rightarrow> ''conductor-'' @ uuid),
      appInterfacePort = None, tryCpClient = client\<rparr>"

text \<open>
  The state when the module has been loaded: the counter is 0; every client and every
  conductor of the store is as its constructor leaves it, conductor \<open>k\<close> on client
  \<open>k\<close> with the decimal \<open>k\<close> for its uuid; no signing credentials are authorized.
\<close>

definition initialWorld :: world where
  "initialWorld =
     \<lparr>requestId = 0, clients = (\<lambda>k. newTryCpClient),
      conductors = (\<lambda>k. newTryCpConductor k None (decimal k)), credentials = Map.empty\<rparr>"




section \<open>Values for the examples\<close>

text \<open>
  A server that never answers, and one that answers the admin calls modelled here: it
  generates the key \<open>[7]\<close>, installs an app with one provisioned cell under the id
  asked for, enables it without errors, attaches the port asked for, returns the call's
  id as the only agent info, and refuses to add agent infos; it never answers a call to
  an app interface.
\<close>

definition silentServer :: remote where
  "silentServer i request = None"

definition exampleAppInfo :: "string \<Rightarrow> appInfo" where
  "exampleAppInfo app =
     \<lparr>ai_installed_app_id = app,
      ai_cell_info = [(''role'', [Provisioned \<lparr>pc_cell_id = ([1], [2]), pc_name = ''cell''\<rparr>])]\<rparr>"

fun exampleAdmin :: "nat \<Rightarrow> adminMessage \<Rightarrow> responseBody" where
  "exampleAdmin i GenerateAgentPubKeyMsg = Success0 (SerBytes (Inr (AgentPubKeyGenerated [7])))"
| "exampleAdmin i (InstallAppMsg d) =
     Success0 (SerBytes (Inr (AppInstalled (exampleAppInfo (ia_installed_app_id d)))))"
| "exampleAdmin i (EnableAppMsg app) =
     Success0 (SerBytes (Inr (AppEnabled \<lparr>ea_app = exampleAppInfo app, ea_errors = []\<rparr>)))"
| "exampleAdmin i (AttachAppInterfaceMsg port) =
     Success0 (SerBytes (Inr (AppInterfaceAttached port)))"
| "exampleAdmin i (AgentInfoMsg cell) = Success0 (SerBytes (Inr (AgentInfoResponse [[i]])))"
| "exampleAdmin i (AddAgentInfoMsg infos) = Error1 ''refused''"

fun exampleServer :: remote where
  "exampleServer i (CallAdminInterface name message) = Some (exampleAdmin i message)"
| "exampleServer i request = None"

text \<open>
  A DNA hash and an agent key of 39 bytes, and a signing function for the examples: it
  signs a request whose cell id is made of two hashes of 39 bytes and rejects any other.
\<close>

definition exampleDnaHash :: bytes where
  "exampleDnaHash = [132, 45, 36] @ replicate 36 1"

definition exampleAgentKey :: bytes where
  "exampleAgentKey = [132, 32, 36] @ replicate 36 2"

definition exampleSign :: "callZomeRequest \<Rightarrow> thrown + callZomeRequestSigned" where
  "exampleSign request =
     (if length (fst (cz_cell_id request)) = 39 \<and> length (snd (cz_cell_id request)) = 39
      then Inr \<lparr>sg_request = request, sg_nonce = [], sg_expires_at = 0, sg_signature = []\<rparr>
      else Inl (Error ''invalid hash''))"

text \<open>
  A state in which conductor 0 has the app interface port 30000 attached and signing
  credentials are authorized for the cell of the example hashes, and a callable cell for
  it.
\<close>

definition exampleWorld :: world where
  "exampleWorld =
     initialWorld
       \<lparr>conductors := (conductors initialWorld)
          (0 := (conductors initialWorld 0)\<lparr>appInterfacePort := Some 30000\<rparr>),
        credentials :=
          [(exampleDnaHash, exampleAgentKey) \<mapsto>
             \<lparr>capSecret = [], keyPair = [], signingKey = []\<rparr>]\<rparr>"

definition exampleCell :: callableCell where
  "exampleCell =
     getCallableCell 0
       (ProvisionedCell \<lparr>pc_cell_id = (exampleDnaHash, exampleAgentKey), pc_name = ''cell''\<rparr>)
       exampleAgentKey"

definition exampleRequest :: cellZomeCallRequest where
  "exampleRequest =
     \<lparr>rq_zome_name = ''coordinator'', rq_fn_name = ''create'', rq_payload = None,
      rq_provenance = None\<rparr>"

section \<open>Properties of the client\<close>

subsection \<open>Responses find their requests\<close>

lemma onMessage_known_id:
  "requestPromises c i = Some h \<Longrightarrow> body \<noteq> UnknownBody \<Longrightarrow>
   onMessage c (Inr (ResponseWrapper i body)) =
     c\<lparr>promises := settle h (settlementOf body) (promises c),
       requestPromises := (requestPromises c)(i := None),
       effects := effects c @ settleEffect h body @ [Delete i]\<rparr>"
  by (auto simp: onMessage_def settlementOf_def settleEffect_def deleteRequestPromise_def
        responseResolve_def responseReject_def
      split: responseBody.splits sum.splits)

lemma calls_fields:
  "calls rid c reqs = (rid', c', ps) \<Longrightarrow>
     rid' = rid + length reqs \<and>
     ps = [length (promises c)..<length (promises c) + length reqs] \<and>
     promises c' = promises c @ replicate (length reqs) Pending \<and>
     requestPromises c' =
       (\<lambda>k. if rid \<le> k \<and> k < rid + length reqs then Some (length (promises c) + (k - rid))
            else requestPromises c k) \<and>
     signalHandlers c' = signalHandlers c \<and>
     effects c' = effects c @ map (\<lambda>(i, r). WsSend i r) (zip [rid..<rid + length reqs] reqs) \<and>
     logs c' = logs c"
proof (induction reqs arbitrary: rid c rid' c' ps)
  case Nil
  then show ?case by (auto simp: fun_eq_iff)
next
  case (Cons r reqs)
  obtain r1 c1 p where c1: "call rid c r = (r1, c1, p)" by (cases "call rid c r")
  obtain r2 c2 ps2 where c2: "calls r1 c1 reqs = (r2, c2, ps2)" by (cases "calls r1 c1 reqs")
  from Cons.prems c1 c2 have eq: "rid' = r2" "c' = c2" "ps = p # ps2" by auto
  from c1 have s1: "r1 = Suc rid" "p = length (promises c)"
     "promises c1 = promises c @ [Pending]"
     "requestPromises c1 = (requestPromises c)(rid \<mapsto> length (promises c))"
     "signalHandlers c1 = signalHandlers c"
     "effects c1 = effects c @ [WsSend rid r]" "logs c1 = logs c"
    by (auto simp: call_def Let_def)
  note ih = Cons.IH[OF c2]
  have n: "[n..<n + Suc m] = n # [Suc n..<Suc n + m]" for n m :: nat
    by (simp add: upt_conv_Cons)
  have "rid' = rid + length (r # reqs)" using ih s1 eq by simp
  moreover have "ps = [length (promises c)..<length (promises c) + length (r # reqs)]"
    using ih s1 eq n[of "length (promises c)" "length reqs"] by simp
  moreover have "promises c' = promises c @ replicate (length (r # reqs)) Pending"
    using ih s1 eq by (simp add: replicate_app_Cons_same)
  moreover have "requestPromises c' =
       (\<lambda>k. if rid \<le> k \<and> k < rid + length (r # reqs) then Some (length (promises c) + (k - rid))
            else requestPromises c k)"
    using ih s1 eq by (auto simp: fun_eq_iff)
  moreover have "signalHandlers c' = signalHandlers c" using ih s1 eq by simp
  moreover have "effects c' = effects c @ map (\<lambda>(i, r). WsSend i r) (zip [rid..<rid + length (r # reqs)] (r # reqs))"
    using ih s1 eq n[of rid "length reqs"] by simp
  moreover have "logs c' = logs c" using ih s1 eq by simp
  ultimately show ?case by blast
qed

lemma settle_length [simp]: "length (settle h s ps) = length ps"
  by (simp add: settle_def)

lemma settle_nth_same:
  "h < length ps \<Longrightarrow> ps ! h = Pending \<Longrightarrow> settle h s ps ! h = s"
  by (simp add: settle_def)

lemma settle_nth_other: "h' \<noteq> h \<Longrightarrow> settle h s ps ! h' = ps ! h'"
  by (simp add: settle_def)

lemma onMessages_responses:
  assumes "distinct (map fst resps)"
    and "\<forall>r \<in> set resps. snd r \<noteq> UnknownBody"
    and "\<forall>i \<in> fst ` set resps. requestPromises c i = Some (hf i) \<and> hf i < length (promises c) \<and>
           promises c ! hf i = Pending"
    and "inj_on hf (fst ` set resps)"
  shows "requestPromises (onMessages c (map responseFrame resps)) =
           (\<lambda>k. if k \<in> fst ` set resps then None else requestPromises c k) \<and>
         length (promises (onMessages c (map responseFrame resps))) = length (promises c) \<and>
         (\<forall>r \<in> set resps. promises (onMessages c (map responseFrame resps)) ! hf (fst r) =
            settlementOf (snd r)) \<and>
         (\<forall>h. h \<notin> hf ` fst ` set resps \<longrightarrow>
            promises (onMessages c (map responseFrame resps)) ! h = promises c ! h) \<and>
         signalHandlers (onMessages c (map responseFrame resps)) = signalHandlers c \<and>
         effects (onMessages c (map responseFrame resps)) =
           effects c @ concat (map (\<lambda>r. settleEffect (hf (fst r)) (snd r) @ [Delete (fst r)]) resps) \<and>
         logs (onMessages c (map responseFrame resps)) = logs c"
  using assms
proof (induction resps arbitrary: c)
  case Nil
  then show ?case by (simp add: onMessages_def)
next
  case (Cons r resps)
  obtain i body where r: "r = (i, body)" by (cases r)
  define c1 where "c1 = onMessage c (responseFrame r)"
  have hi: "requestPromises c i = Some (hf i)" "hf i < length (promises c)" "promises c ! hf i = Pending"
    and body: "body \<noteq> UnknownBody"
    using Cons.prems r by auto
  have c1: "c1 = c\<lparr>promises := settle (hf i) (settlementOf body) (promises c),
       requestPromises := (requestPromises c)(i := None),
       effects := effects c @ settleEffect (hf i) body @ [Delete i]\<rparr>"
    unfolding c1_def r responseFrame_def using onMessage_known_id[OF hi(1) body] by simp
  have notin: "i \<notin> fst ` set resps" using Cons.prems(1) r by auto
  have hne: "\<And>j. j \<in> fst ` set resps \<Longrightarrow> hf j \<noteq> hf i"
    using Cons.prems(4) notin r by (auto simp: inj_on_def)
  have p1: "distinct (map fst resps)" using Cons.prems(1) by simp
  have p2: "\<forall>r \<in> set resps. snd r \<noteq> UnknownBody" using Cons.prems(2) by simp
  have p3: "\<forall>j \<in> fst ` set resps. requestPromises c1 j = Some (hf j) \<and> hf j < length (promises c1) \<and>
           promises c1 ! hf j = Pending"
  proof
    fix j assume j: "j \<in> fst ` set resps"
    then have "j \<noteq> i" using notin by auto
    moreover have "requestPromises c j = Some (hf j) \<and> hf j < length (promises c) \<and>
           promises c ! hf j = Pending" using Cons.prems(3) j by auto
    ultimately show "requestPromises c1 j = Some (hf j) \<and> hf j < length (promises c1) \<and>
           promises c1 ! hf j = Pending"
      using hne[OF j] by (simp add: c1 settle_nth_other)
  qed
  have p4: "inj_on hf (fst ` set resps)" using Cons.prems(4) by (auto simp: inj_on_def)
  note ih = Cons.IH[OF p1 p2 p3 p4]
  have unfold: "onMessages c (map responseFrame (r # resps)) = onMessages c1 (map responseFrame resps)"
    by (simp add: onMessages_def c1_def)
  have a: "promises (onMessages c1 (map responseFrame resps)) ! hf i = settlementOf body"
  proof -
    have "hf i \<notin> hf ` fst ` set resps"
    proof
      assume "hf i \<in> hf ` fst ` set resps"
      then obtain j where "j \<in> fst ` set resps" "hf i = hf j" by auto
      with hne show False by metis
    qed
    then have "promises (onMessages c1 (map responseFrame resps)) ! hf i = promises c1 ! hf i"
      using ih by blast
    then show ?thesis by (simp add: c1 settle_nth_same hi)
  qed
  show ?case
    unfolding unfold using ih a
    by (auto simp: r c1 fun_eq_iff settle_nth_other)
qed


lemma length_filter_concat_map:
  assumes "\<And>x. x \<in> set xs \<Longrightarrow> length (filter P (g x)) = (if Q x then 1 else 0)"
  shows "length (filter P (concat (map g xs))) = length (filter Q xs)"
  using assms by (induction xs) auto

lemma length_filter_distinct_key:
  "distinct (map f xs) \<Longrightarrow> a \<in> f ` set xs \<Longrightarrow> length (filter (\<lambda>x. f x = a) xs) = 1"
proof (induction xs)
  case Nil
  then show ?case by simp
next
  case (Cons x xs)
  show ?case
  proof (cases "f x = a")
    case True
    then have "a \<notin> f ` set xs" using Cons.prems(1) by auto
    then have "filter (\<lambda>x. f x = a) xs = []" by (auto simp: filter_empty_conv)
    with True show ?thesis by simp
  next
    case False
    then show ?thesis using Cons by auto
  qed
qed

lemma settleEffect_settles:
  "body \<noteq> UnknownBody \<Longrightarrow> length (filter (settles h) (settleEffect h' body)) = (if h' = h then 1 else 0)"
  by (auto simp: settleEffect_def settlementOf_def split: responseBody.splits sum.splits)

lemma settleEffect_no_Delete: "filter (\<lambda>e. e = Delete i) (settleEffect h body) = []"
  by (auto simp: settleEffect_def split: settlement.splits)


text \<open>
  Claim C1.  Let \<open>N\<close> calls be made on one client, from any state of the client and
  of the counter, and let response frames then arrive for their ids in any order, each
  id once, each with a body that has the property 0 or 1.  The k-th call is sent with id
  \<open>rid + k\<close> and returns the k-th promise.  Every frame finds the promise of the call
  with its own id pending and settles it with the outcome of its own body; in the
  effects after the calls there is exactly one call of that promise's resolve or reject
  function and exactly one delete of that id; and these effects are, frame by frame in the
  order of arrival, the settling of the promise of the frame's id followed by the delete
  of that id, so each entry is removed by the frame that settles its promise.
\<close>

theorem call_correlation:
  assumes "calls rid c reqs = (rid', c1, ps)"
    and "distinct (map fst resps)"
    and "fst ` set resps = {rid..<rid + length reqs}"
    and "\<forall>r \<in> set resps. snd r \<noteq> UnknownBody"
  shows "effects c1 = effects c @ map (\<lambda>(i, r). WsSend i r) (zip [rid..<rid + length reqs] reqs) \<and>
         length ps = length reqs \<and>
         (\<forall>r \<in> set resps.
            promises c1 ! (ps ! (fst r - rid)) = Pending \<and>
            promises (onMessages c1 (map responseFrame resps)) ! (ps ! (fst r - rid)) =
              settlementOf (snd r) \<and>
            settlementOf (snd r) \<noteq> Pending \<and>
            requestPromises c1 (fst r) = Some (ps ! (fst r - rid)) \<and>
            requestPromises (onMessages c1 (map responseFrame resps)) (fst r) = None \<and>
            length (filter (settles (ps ! (fst r - rid)))
              (drop (length (effects c1)) (effects (onMessages c1 (map responseFrame resps))))) = 1 \<and>
            length (filter (\<lambda>e. e = Delete (fst r))
              (drop (length (effects c1)) (effects (onMessages c1 (map responseFrame resps))))) = 1) \<and>
         effects (onMessages c1 (map responseFrame resps)) =
           effects c1 @
           concat (map (\<lambda>r. settleEffect (ps ! (fst r - rid)) (snd r) @ [Delete (fst r)]) resps)"
proof -
  let ?n = "length reqs" and ?b = "length (promises c)"
  let ?c2 = "onMessages c1 (map responseFrame resps)"
  define hf where "hf i = ?b + (i - rid)" for i
  note cf = calls_fields[OF assms(1)]
  have ps: "\<And>i. i \<in> {rid..<rid + ?n} \<Longrightarrow> ps ! (i - rid) = hf i"
    using cf by (auto simp: hf_def)
  have pre: "\<forall>i \<in> fst ` set resps. requestPromises c1 i = Some (hf i) \<and> hf i < length (promises c1) \<and>
           promises c1 ! hf i = Pending"
    using cf assms(3) by (auto simp: hf_def nth_append)
  have inj: "inj_on hf (fst ` set resps)"
    unfolding assms(3) by (auto simp: inj_on_def hf_def)
  note om = onMessages_responses[OF assms(2) assms(4) pre inj]
  have eff: "effects ?c2 = effects c1 @
           concat (map (\<lambda>r. settleEffect (ps ! (fst r - rid)) (snd r) @ [Delete (fst r)]) resps)"
  proof -
    have meq: "map (\<lambda>r. settleEffect (hf (fst r)) (snd r) @ [Delete (fst r)]) resps =
          map (\<lambda>r. settleEffect (ps ! (fst r - rid)) (snd r) @ [Delete (fst r)]) resps"
    proof (intro map_cong refl)
      fix x assume "x \<in> set resps"
      then have "fst x \<in> {rid..<rid + ?n}" using assms(3) by auto
      then show "settleEffect (hf (fst x)) (snd x) @ [Delete (fst x)] =
                 settleEffect (ps ! (fst x - rid)) (snd x) @ [Delete (fst x)]"
        using ps by simp
    qed
    have e1: "effects ?c2 = effects c1 @
           concat (map (\<lambda>r. settleEffect (hf (fst r)) (snd r) @ [Delete (fst r)]) resps)"
      using om by blast
    show ?thesis unfolding e1 meq by (rule refl)
  qed
  have eff0: "effects ?c2 = effects c1 @
           concat (map (\<lambda>r. settleEffect (hf (fst r)) (snd r) @ [Delete (fst r)]) resps)"
    using om by blast
  have "promises c1 ! (ps ! (fst r - rid)) = Pending \<and>
        promises ?c2 ! (ps ! (fst r - rid)) = settlementOf (snd r) \<and>
        settlementOf (snd r) \<noteq> Pending \<and>
        requestPromises c1 (fst r) = Some (ps ! (fst r - rid)) \<and>
        requestPromises ?c2 (fst r) = None \<and>
        length (filter (settles (ps ! (fst r - rid))) (drop (length (effects c1)) (effects ?c2))) = 1 \<and>
        length (filter (\<lambda>e. e = Delete (fst r)) (drop (length (effects c1)) (effects ?c2))) = 1"
    if r: "r \<in> set resps" for r
  proof -
    have mem: "fst r \<in> fst ` set resps" using r by auto
    then have rng: "fst r \<in> {rid..<rid + ?n}" using assms(3) by simp
    have h: "ps ! (fst r - rid) = hf (fst r)" using ps[OF rng] .
    note pm = pre[rule_format, OF mem]
    have om1: "requestPromises ?c2 = (\<lambda>k. if k \<in> fst ` set resps then None else requestPromises c1 k)"
      using om by blast
    have om3: "\<forall>r \<in> set resps. promises ?c2 ! hf (fst r) = settlementOf (snd r)"
      using om by blast
    have 1: "promises c1 ! (ps ! (fst r - rid)) = Pending" using pm h by simp
    have 2: "promises ?c2 ! (ps ! (fst r - rid)) = settlementOf (snd r)"
      using om3[rule_format, OF r] h by simp
    have 3: "settlementOf (snd r) \<noteq> Pending"
      using assms(4) r by (auto simp: settlementOf_def split: responseBody.splits sum.splits)
    have 4: "requestPromises c1 (fst r) = Some (ps ! (fst r - rid))" using pm h by simp
    have 5: "requestPromises ?c2 (fst r) = None" unfolding om1 using mem by simp
    have same: "hf (fst x) = hf (fst r) \<longleftrightarrow> fst x = fst r" if "x \<in> set resps" for x
      using inj that r by (auto simp: inj_on_def)
    have 6: "length (filter (settles (ps ! (fst r - rid))) (drop (length (effects c1)) (effects ?c2))) = 1"
    proof -
      have "length (filter (settles (hf (fst r)))
              (concat (map (\<lambda>r. settleEffect (hf (fst r)) (snd r) @ [Delete (fst r)]) resps))) =
            length (filter (\<lambda>x. fst x = fst r) resps)"
        using assms(4) same by (intro length_filter_concat_map) (simp add: settleEffect_settles)
      also have "\<dots> = 1" using assms(2) mem by (rule length_filter_distinct_key)
      finally show ?thesis unfolding eff0 h by simp
    qed
    have 7: "length (filter (\<lambda>e. e = Delete (fst r)) (drop (length (effects c1)) (effects ?c2))) = 1"
    proof -
      have "length (filter (\<lambda>e. e = Delete (fst r))
              (concat (map (\<lambda>r. settleEffect (hf (fst r)) (snd r) @ [Delete (fst r)]) resps))) =
            length (filter (\<lambda>x. fst x = fst r) resps)"
        by (intro length_filter_concat_map) (auto simp: settleEffect_no_Delete)
      also have "\<dots> = 1" using assms(2) mem by (rule length_filter_distinct_key)
      finally show ?thesis unfolding eff0 by simp
    qed
    from 1 2 3 4 5 6 7 show ?thesis by blast
  qed
  moreover have "length ps = length reqs" using cf by simp
  moreover have "effects c1 = effects c @ map (\<lambda>(i, r). WsSend i r) (zip [rid..<rid + length reqs] reqs)"
    using cf by simp
  ultimately show ?thesis using eff by blast
qed
theorem call_correlation_witness:
  "promises (onMessages (fst (snd (calls 0 newTryCpClient [Startup ''a'', Shutdown ''a''])))
      (map responseFrame [(1, Error1 ''no''), (0, Success0 SerNull)])) !
      (snd (snd (calls 0 newTryCpClient [Startup ''a'', Shutdown ''a''])) ! 0) = Fulfilled SuccessNull \<and>
   promises (onMessages (fst (snd (calls 0 newTryCpClient [Startup ''a'', Shutdown ''a''])))
      (map responseFrame [(1, Error1 ''no''), (0, Success0 SerNull)])) !
      (snd (snd (calls 0 newTryCpClient [Startup ''a'', Shutdown ''a''])) ! 1) = Rejected (Reason ''no'') \<and>
   requestPromises (onMessages (fst (snd (calls 0 newTryCpClient [Startup ''a'', Shutdown ''a''])))
      (map responseFrame [(1, Error1 ''no''), (0, Success0 SerNull)])) 0 = None \<and>
   requestPromises (onMessages (fst (snd (calls 0 newTryCpClient [Startup ''a'', Shutdown ''a''])))
      (map responseFrame [(1, Error1 ''no''), (0, Success0 SerNull)])) 1 = None"
proof -
  let ?reqs = "[Startup ''a'', Shutdown ''a'']"
  let ?resps = "[(1::nat, Error1 ''no''), (0, Success0 SerNull)]"
  let ?X = "calls 0 newTryCpClient ?reqs"
  have c: "?X = (fst ?X, fst (snd ?X), snd (snd ?X))" by simp
  have d: "distinct (map fst ?resps)" by simp
  have s: "fst ` set ?resps = {0..<0 + length ?reqs}" by auto
  have u: "\<forall>r \<in> set ?resps. snd r \<noteq> UnknownBody" by simp
  note T = call_correlation[OF c d s u]
  have a: "\<forall>r \<in> set ?resps.
      promises (onMessages (fst (snd ?X)) (map responseFrame ?resps)) ! (snd (snd ?X) ! (fst r - 0)) =
        settlementOf (snd r) \<and>
      requestPromises (onMessages (fst (snd ?X)) (map responseFrame ?resps)) (fst r) = None"
    using T by blast
  have "(0, Success0 SerNull) \<in> set ?resps" "(1, Error1 ''no'') \<in> set ?resps" by simp_all
  from a[rule_format, OF this(1)] a[rule_format, OF this(2)]
  show ?thesis by (simp add: settlementOf_def)
qed

subsection \<open>Closing the connection\<close>

text \<open>
  Claim C2, as amended.  Let \<open>K\<close> calls be pending on a client.  \<^verbatim>\<open>close\<close> asks
  the socket to close with code 1000 and resolves with the code of the close event, and
  that is all it does: it calls no reject function, each of the \<open>K\<close> promises is still
  pending and each of the \<open>K\<close> entries is still in the pending-request map.
\<close>

theorem close_settles_nothing:
  assumes "calls rid c reqs = (rid', c1, ps)"
  shows "length ps = length reqs \<and>
         (\<forall>k < length reqs.
            promises (fst (close c1 code)) ! (ps ! k) = Pending \<and>
            requestPromises (fst (close c1 code)) (rid + k) = Some (ps ! k)) \<and>
         promises (fst (close c1 code)) = promises c1 \<and>
         requestPromises (fst (close c1 code)) = requestPromises c1 \<and>
         effects (fst (close c1 code)) = effects c1 @ [WsClose 1000] \<and>
         logs (fst (close c1 code)) = logs c1 \<and>
         snd (close c1 code) = code"
proof -
  note cf = calls_fields[OF assms]
  have "promises c1 ! (ps ! k) = Pending \<and> requestPromises c1 (rid + k) = Some (ps ! k)"
    if "k < length reqs" for k
    using cf that by (simp add: nth_append)
  moreover have "length ps = length reqs" using cf by simp
  ultimately show ?thesis by (simp add: close_def)
qed

theorem close_settles_nothing_witness:
  "promises (fst (close (fst (snd (calls 0 newTryCpClient [Startup ''c'', Shutdown ''c'']))) 1000)) =
     [Pending, Pending] \<and>
   effects (fst (close (fst (snd (calls 0 newTryCpClient [Startup ''c'', Shutdown ''c'']))) 1000)) =
     [WsSend 0 (Startup ''c''), WsSend 1 (Shutdown ''c''), WsClose 1000]"
proof -
  let ?X = "calls 0 newTryCpClient [Startup ''c'', Shutdown ''c'']"
  have c: "?X = (fst ?X, fst (snd ?X), snd (snd ?X))" by simp
  have p: "promises (fst (close (fst (snd ?X)) 1000)) = promises (fst (snd ?X))"
    and e: "effects (fst (close (fst (snd ?X)) 1000)) = effects (fst (snd ?X)) @ [WsClose 1000]"
    using close_settles_nothing[OF c, of 1000] by blast+
  show ?thesis unfolding p e by (simp add: call_def newTryCpClient_def)
qed

text \<open>
  Claim C2 fails as stated: after one call and \<^verbatim>\<open>close\<close>, the promise of the call is
  still pending, its entry is still in the map, and no reject function has been called.
\<close>

theorem close_rejects_pending_counterexample:
  "promises (fst (close (fst (snd (call 0 newTryCpClient (Startup ''c'')))) 1000)) = [Pending] \<and>
   requestPromises (fst (close (fst (snd (call 0 newTryCpClient (Startup ''c'')))) 1000)) 0 = Some 0 \<and>
   effects (fst (close (fst (snd (call 0 newTryCpClient (Startup ''c'')))) 1000)) =
     [WsSend 0 (Startup ''c''), WsClose 1000]"
  by (simp add: close_def call_def newTryCpClient_def)


subsection \<open>Frames that find nothing registered\<close>

lemma agreeButLogs_onMessage:
  "agreeButLogs c d \<Longrightarrow> agreeButLogs (onMessage c f) (onMessage d f)"
  by (auto simp: agreeButLogs_def onMessage_def consoleError_def deleteRequestPromise_def
        responseResolve_def responseReject_def
      split: sum.splits responseWrapper.splits option.splits responseBody.splits)

lemma agreeButLogs_onMessages:
  "agreeButLogs c d \<Longrightarrow> agreeButLogs (onMessages c fs) (onMessages d fs)"
  unfolding onMessages_def
  by (induction fs arbitrary: c d) (auto intro: agreeButLogs_onMessage)


text \<open>
  Claim C3.  A response frame whose id has no entry in the pending-request map changes
  nothing but the log, where the caught exception is printed: no promise is settled, no
  entry removed, nothing thrown to a caller; and whatever frames follow, the client
  handles them as it would have without that frame (the promises, the map, the handlers
  and the effects are the same).
\<close>

theorem unknown_id_dropped:
  assumes "requestPromises c i = None"
  shows "onMessage c (Inr (ResponseWrapper i body)) =
           c\<lparr>logs := logs c @
             [ConsoleError (TypeError ''Cannot destructure property responseResolve of undefined'')]\<rparr> \<and>
         agreeButLogs (onMessage c (Inr (ResponseWrapper i body))) c \<and>
         agreeButLogs (onMessages (onMessage c (Inr (ResponseWrapper i body))) fs) (onMessages c fs)"
proof -
  have 1: "onMessage c (Inr (ResponseWrapper i body)) =
           c\<lparr>logs := logs c @
             [ConsoleError (TypeError ''Cannot destructure property responseResolve of undefined'')]\<rparr>"
    using assms by (simp add: onMessage_def consoleError_def)
  have 2: "agreeButLogs (onMessage c (Inr (ResponseWrapper i body))) c"
    unfolding 1 by (simp add: agreeButLogs_def)
  then have "agreeButLogs (onMessages (onMessage c (Inr (ResponseWrapper i body))) fs) (onMessages c fs)"
    by (rule agreeButLogs_onMessages)
  with 1 2 show ?thesis by blast
qed

theorem unknown_id_dropped_witness:
  "requestPromises (fst (snd (call 0 newTryCpClient (Startup ''c'')))) 5 = None \<and>
   agreeButLogs
     (onMessages
        (onMessage (fst (snd (call 0 newTryCpClient (Startup ''c''))))
           (Inr (ResponseWrapper 5 (Success0 SerNull))))
        [Inr (ResponseWrapper 0 (Success0 SerNull))])
     (onMessages (fst (snd (call 0 newTryCpClient (Startup ''c''))))
        [Inr (ResponseWrapper 0 (Success0 SerNull))])"
proof -
  have n: "requestPromises (fst (snd (call 0 newTryCpClient (Startup ''c'')))) 5 = None"
    by (simp add: call_def newTryCpClient_def)
  from unknown_id_dropped[OF n] n show ?thesis by blast
qed

text \<open>
  Claim C5.  The handlers are a map from ports, so a port has at most one; setting a
  handler for a port replaces the one it had and leaves the other ports, the pending
  requests and the promises alone; a signal frame for the port is handed to the handler
  set last, and to no other; a signal frame for a port without a handler changes nothing
  but the log: nothing is thrown, the frames that follow are handled as without it, and
  a handler set later for the port gets the later signals only.
\<close>

theorem signal_handler_per_port:
  "signalHandlers (setSignalHandler (setSignalHandler c p h1) p h2) p = h2 \<and>
   (q \<noteq> p \<longrightarrow> signalHandlers (setSignalHandler c p h1) q = signalHandlers c q) \<and>
   requestPromises (setSignalHandler c p h1) = requestPromises c \<and>
   promises (setSignalHandler c p h1) = promises c \<and>
   onMessage (setSignalHandler (setSignalHandler c p h1) p (Some h)) (Inr (SignalWrapper p (Inr sig))) =
     (setSignalHandler (setSignalHandler c p h1) p (Some h))
       \<lparr>effects := effects c @ [SignalHandlerCall h sig]\<rparr> \<and>
   (signalHandlers c p = Some h \<longrightarrow>
      onMessage c (Inr (SignalWrapper p (Inr sig))) =
        c\<lparr>effects := effects c @ [SignalHandlerCall h sig]\<rparr>) \<and>
   (signalHandlers c p = None \<longrightarrow>
      onMessage c (Inr (SignalWrapper p sdata)) =
        c\<lparr>logs := logs c @
          [LoggerInfo ''received signal from TryCP server, but no signal handler registered'']\<rparr> \<and>
      agreeButLogs (onMessages (onMessage c (Inr (SignalWrapper p sdata))) fs) (onMessages c fs) \<and>
      effects (onMessage (setSignalHandler (onMessage c (Inr (SignalWrapper p sdata))) p (Some h))
                 (Inr (SignalWrapper p (Inr sig)))) =
        effects c @ [SignalHandlerCall h sig])"
proof -
  have drop: "onMessage c (Inr (SignalWrapper p sdata)) =
        c\<lparr>logs := logs c @
          [LoggerInfo ''received signal from TryCP server, but no signal handler registered'']\<rparr>"
    if "signalHandlers c p = None"
    using that by (simp add: onMessage_def)
  have agree: "agreeButLogs (onMessages (onMessage c (Inr (SignalWrapper p sdata))) fs) (onMessages c fs)"
    if "signalHandlers c p = None"
  proof -
    have "agreeButLogs (onMessage c (Inr (SignalWrapper p sdata))) c"
      unfolding drop[OF that] by (simp add: agreeButLogs_def)
    then show ?thesis by (rule agreeButLogs_onMessages)
  qed
  have later: "effects (onMessage (setSignalHandler (onMessage c (Inr (SignalWrapper p sdata))) p (Some h))
                 (Inr (SignalWrapper p (Inr sig)))) =
        effects c @ [SignalHandlerCall h sig]"
    if "signalHandlers c p = None"
    unfolding drop[OF that] by (simp add: onMessage_def setSignalHandler_def)
  have deliver: "onMessage (setSignalHandler (setSignalHandler c p h1) p (Some h)) (Inr (SignalWrapper p (Inr sig))) =
     (setSignalHandler (setSignalHandler c p h1) p (Some h))
       \<lparr>effects := effects c @ [SignalHandlerCall h sig]\<rparr>"
    by (simp add: onMessage_def setSignalHandler_def)
  have basics: "signalHandlers (setSignalHandler (setSignalHandler c p h1) p h2) p = h2"
    "q \<noteq> p \<longrightarrow> signalHandlers (setSignalHandler c p h1) q = signalHandlers c q"
    "requestPromises (setSignalHandler c p h1) = requestPromises c"
    "promises (setSignalHandler c p h1) = promises c"
    by (simp_all add: setSignalHandler_def)
  have known: "onMessage c (Inr (SignalWrapper p (Inr sig))) =
        c\<lparr>effects := effects c @ [SignalHandlerCall h sig]\<rparr>"
    if "signalHandlers c p = Some h"
    using that by (simp add: onMessage_def)
  from basics deliver known drop agree later show ?thesis by blast
qed

theorem signal_handler_per_port_witness:
  "onMessage (setSignalHandler (setSignalHandler newTryCpClient 30000 (Some 1)) 30000 (Some 2))
      (Inr (SignalWrapper 30000 (Inr [5]))) =
     (setSignalHandler (setSignalHandler newTryCpClient 30000 (Some 1)) 30000 (Some 2))
       \<lparr>effects := [SignalHandlerCall 2 [5]]\<rparr> \<and>
   signalHandlers newTryCpClient 30001 = None \<and>
   effects (onMessage (setSignalHandler (onMessage newTryCpClient (Inr (SignalWrapper 30001 (Inr [4])))) 30001 (Some 3))
                 (Inr (SignalWrapper 30001 (Inr [6])))) = [SignalHandlerCall 3 [6]]"
proof -
  have none: "signalHandlers newTryCpClient 30001 = None"
    by (simp add: newTryCpClient_def)
  have e: "effects newTryCpClient = []"
    by (simp add: newTryCpClient_def)
  have 1: "onMessage (setSignalHandler (setSignalHandler newTryCpClient 30000 (Some 1)) 30000 (Some 2))
      (Inr (SignalWrapper 30000 (Inr [5]))) =
     (setSignalHandler (setSignalHandler newTryCpClient 30000 (Some 1)) 30000 (Some 2))
       \<lparr>effects := effects newTryCpClient @ [SignalHandlerCall 2 [5]]\<rparr>"
    using signal_handler_per_port[of newTryCpClient 30000 "Some 1" "Some 2" 30001 2 "[5]"]
    by blast
  have 2: "effects (onMessage (setSignalHandler (onMessage newTryCpClient (Inr (SignalWrapper 30001 (Inr [4])))) 30001 (Some 3))
                 (Inr (SignalWrapper 30001 (Inr [6])))) = effects newTryCpClient @ [SignalHandlerCall 3 [6]]"
    using signal_handler_per_port[of newTryCpClient 30001 None None 0 3 "[6]" "Inr [4]" "[]"] none
    by blast
  from 1 2 none show ?thesis unfolding e by simp
qed


subsection \<open>The request id counter\<close>

lemma sentIds_append: "sentIds (xs @ ys) = sentIds xs @ sentIds ys"
  by (induction xs rule: sentIds.induct) auto

lemma clientCall_fields:
  "requestId (fst (clientCall w k request)) = requestId w + 1"
  "clients (fst (clientCall w k request)) =
     (clients w)(k := (clients w k)
        \<lparr>promises := promises (clients w k) @ [Pending],
         requestPromises := (requestPromises (clients w k))(requestId w \<mapsto> length (promises (clients w k))),
         effects := effects (clients w k) @ [WsSend (requestId w) request]\<rparr>)"
  "conductors (fst (clientCall w k request)) = conductors w"
  "credentials (fst (clientCall w k request)) = credentials w"
  "snd (clientCall w k request) = length (promises (clients w k))"
  by (simp_all add: clientCall_def call_def Let_def)

lemma clientCalls_requestId: "requestId (clientCalls w ops) = requestId w + length ops"
  by (induction w ops rule: clientCalls.induct) (simp_all add: clientCall_fields)

lemma clientCalls_sentIds:
  "sentIds (effects (clients (clientCalls w ops) k)) =
     sentIds (effects (clients w k)) @
     map fst (filter (\<lambda>e. fst (snd e) = k) (enumerate (requestId w) ops))"
  by (induction w ops rule: clientCalls.induct) (simp_all add: clientCall_fields sentIds_append)

lemma sorted_ids_enumerate:
  "sorted_wrt (<) (map fst (filter P (enumerate n xs)))"
proof -
  have "sorted_wrt (<) (map fst (enumerate n xs))" by simp
  then have "sorted_wrt (\<lambda>a b. fst a < fst b) (enumerate n xs)"
    unfolding sorted_wrt_map .
  then have "sorted_wrt (\<lambda>a b. fst a < fst b) (filter P (enumerate n xs))" by (rule sorted_wrt_filter)
  then show ?thesis by (simp add: sorted_wrt_map)
qed


text \<open>
  Claim C4, as amended.  There is one counter for the module, shared by all clients.  It
  starts at 0, and a call on any client sends the counter's value as its id and adds one
  to it.  So the ids sent on one client increase strictly and none is used twice, and
  the first call on a new client carries the number of calls made before on all clients.
\<close>

theorem request_id_shared_counter:
  "requestId initialWorld = 0 \<and>
   requestId (fst (clientCall w k request)) = requestId w + 1 \<and>
   effects (clients (fst (clientCall w k request)) k) =
     effects (clients w k) @ [WsSend (requestId w) request] \<and>
   requestId (clientCalls w ops) = requestId w + length ops \<and>
   sentIds (effects (clients (clientCalls w ops) k)) =
     sentIds (effects (clients w k)) @
     map fst (filter (\<lambda>e. fst (snd e) = k) (enumerate (requestId w) ops)) \<and>
   sorted_wrt (<) (map fst (filter (\<lambda>e. fst (snd e) = k) (enumerate (requestId w) ops))) \<and>
   distinct (sentIds (effects (clients (clientCalls initialWorld ops) k)))"
proof -
  have d: "distinct (sentIds (effects (clients (clientCalls initialWorld ops) k)))"
  proof -
    have "sentIds (effects (clients (clientCalls initialWorld ops) k)) =
          map fst (filter (\<lambda>e. fst (snd e) = k) (enumerate (requestId initialWorld) ops))"
      unfolding clientCalls_sentIds by (simp add: initialWorld_def newTryCpClient_def)
    moreover have "distinct (map fst (filter (\<lambda>e. fst (snd e) = k) (enumerate (requestId initialWorld) ops)))"
      using sorted_ids_enumerate strict_sorted_iff by blast
    ultimately show ?thesis by simp
  qed
  have "requestId initialWorld = 0" by (simp add: initialWorld_def)
  moreover have "effects (clients (fst (clientCall w k request)) k) =
     effects (clients w k) @ [WsSend (requestId w) request]"
    by (simp add: clientCall_fields)
  ultimately show ?thesis
    using d clientCalls_requestId clientCalls_sentIds sorted_ids_enumerate clientCall_fields(1)
    by blast
qed


text \<open>
  Claim C4 fails as stated: after one call on client 0, client 1 is still as its
  constructor left it, and its first call carries id 1.
\<close>

theorem request_id_per_connection_counterexample:
  "clients (clientCalls initialWorld [(0, Startup ''a'')]) 1 = newTryCpClient \<and>
   sentIds (effects (clients (clientCalls initialWorld [(0, Startup ''a''), (1, Startup ''b'')]) 1)) = [1]"
  by (simp add: clientCall_fields initialWorld_def newTryCpClient_def)

section \<open>Properties of the conductor\<close>

lemmas await_defs = awaitCall_def clientCall_def call_def awaitResponse_def clientMessage_def
  onMessage_def responseResolve_def responseReject_def deleteRequestPromise_def consoleError_def
  settle_def Let_def

lemmas admin_defs = callAdminApi_def andThen_def assertApiResponse_def adminRequest_def

lemmas example_defs = initialWorld_def newTryCpClient_def newTryCpConductor_def exampleWorld_def
  exampleCell_def exampleRequest_def exampleSign_def silentServer_def exampleAppInfo_def

subsection \<open>Zome calls\<close>

text \<open>
  Claim C10.  \<^verbatim>\<open>callZome\<close> with an unsigned request for a cell without authorized
  signing credentials throws the error with the message quoted and leaves the whole state
  as it was: the counter, every client with its pending-request map and its effects
  (nothing is sent), the conductors and the credentials.
\<close>

theorem unsigned_call_without_credentials:
  assumes "credentials w (cz_cell_id request) = None"
  shows "callZome remote signZomeCall w this (Inl request) =
           (w, Threw (Error
              (''cannot sign zome call: no signing credentials have been authorized for cell '' @
               cellIdToString (cz_cell_id request))))"
  using assms by (simp add: callZome_def andThen_def)


theorem unsigned_call_without_credentials_witness:
  "credentials initialWorld ([1, 2], [30]) = None \<and>
   callZome exampleServer exampleSign initialWorld 0
     (Inl \<lparr>cz_cell_id = ([1, 2], [30]), cz_zome_name = ''coordinator'', cz_fn_name = ''create'',
           cz_provenance = [30], cz_cap_secret = None, cz_payload = None\<rparr>) =
     (initialWorld,
      Threw (Error ''cannot sign zome call: no signing credentials have been authorized for cell 1,2,30''))"
proof -
  have n: "credentials initialWorld
     (cz_cell_id \<lparr>cz_cell_id = ([1, 2], [30]), cz_zome_name = ''coordinator'', cz_fn_name = ''create'',
           cz_provenance = [30], cz_cap_secret = None, cz_payload = None\<rparr>) = None"
    by (simp add: initialWorld_def)
  from unsigned_call_without_credentials[OF n, of exampleServer exampleSign 0] n
  show ?thesis by (simp add: cellIdToString_def)
qed


text \<open>
  A zome call through a callable cell that the server does not answer: the timeout makes
  no difference; when the port is attached, the credentials are authorized and the request
  is signed, the call is sent and never settles, and its slot stays in the pending-request
  map until a response frame with its id arrives, which then settles it.
\<close>

lemma cellCallZome_unanswered:
  assumes "appInterfacePort (conductors w (cl_conductor cell)) = Some port" and "port \<noteq> 0"
    and "credentials w (cellIdOf (cl_cell cell)) = Some sc"
    and "signZomeCall (cellRequest cell request) = Inr signed"
    and "remote (requestId w) (CallAppInterface port (CallZomeMsg signed)) = None"
  shows "cellCallZome remote signZomeCall w cell request timeout =
           (fst (clientCall w (tryCpClient (conductors w (cl_conductor cell)))
                   (CallAppInterface port (CallZomeMsg signed))),
            Hangs)"
  using assms
  by (simp add: cellCallZome_def callZome_def callAppApi_def andThen_def awaitCall_def
        awaitResponse_def cellRequest_def split: prod.splits)

text \<open>
  Claim C6 at a callable cell of a TryCP conductor with an attached app interface and
  authorized signing credentials, called with a timeout of 1 while the server never
  answers.  The call does the same as without a timeout: the request is sent with id 0,
  and then no error is ever raised, the promise stays pending and the slot stays in the
  pending-request map.  A response for id 0 that arrives later is not dropped as an
  unknown id: it fulfils the promise and removes the slot.
\<close>

theorem zome_call_timeout_dropped:
  "cellCallZome silentServer exampleSign exampleWorld exampleCell exampleRequest (Some 1) =
     cellCallZome silentServer exampleSign exampleWorld exampleCell exampleRequest None \<and>
   snd (cellCallZome silentServer exampleSign exampleWorld exampleCell exampleRequest (Some 1)) = Hangs \<and>
   effects
     (clients (fst (cellCallZome silentServer exampleSign exampleWorld exampleCell exampleRequest (Some 1))) 0) =
     [WsSend 0
        (CallAppInterface 30000
           (CallZomeMsg
              \<lparr>sg_request =
                 \<lparr>cz_cell_id = (exampleDnaHash, exampleAgentKey), cz_zome_name = ''coordinator'',
                  cz_fn_name = ''create'', cz_provenance = exampleAgentKey, cz_cap_secret = None,
                  cz_payload = None\<rparr>,
               sg_nonce = [], sg_expires_at = 0, sg_signature = []\<rparr>))] \<and>
   requestPromises
     (clients (fst (cellCallZome silentServer exampleSign exampleWorld exampleCell exampleRequest (Some 1))) 0)
     0 = Some 0 \<and>
   promises
     (clients (fst (cellCallZome silentServer exampleSign exampleWorld exampleCell exampleRequest (Some 1))) 0) =
     [Pending] \<and>
   promises
     (onMessage
        (clients (fst (cellCallZome silentServer exampleSign exampleWorld exampleCell exampleRequest (Some 1))) 0)
        (Inr (ResponseWrapper 0 (Success0 (SerBytes (Inr (ZomeCalled [9]))))))) =
     [Fulfilled (SuccessApi (ZomeCalled [9]))] \<and>
   requestPromises
     (onMessage
        (clients (fst (cellCallZome silentServer exampleSign exampleWorld exampleCell exampleRequest (Some 1))) 0)
        (Inr (ResponseWrapper 0 (Success0 (SerBytes (Inr (ZomeCalled [9])))))))
     0 = None"
proof -
  let ?signed = "\<lparr>sg_request = cellRequest exampleCell exampleRequest, sg_nonce = [],
                  sg_expires_at = 0, sg_signature = []\<rparr>"
  have 1: "appInterfacePort (conductors exampleWorld (cl_conductor exampleCell)) = Some 30000"
    and 2: "(30000::nat) \<noteq> 0"
    and 3: "credentials exampleWorld (cellIdOf (cl_cell exampleCell)) =
              Some \<lparr>capSecret = [], keyPair = [], signingKey = []\<rparr>"
    and 4: "exampleSign (cellRequest exampleCell exampleRequest) = Inr ?signed"
    and 5: "silentServer (requestId exampleWorld) (CallAppInterface 30000 (CallZomeMsg ?signed)) = None"
    by (simp_all add: example_defs getCallableCell_def cellRequest_def exampleDnaHash_def
          exampleAgentKey_def)
  have run: "cellCallZome silentServer exampleSign exampleWorld exampleCell exampleRequest t =
          (fst (clientCall exampleWorld (tryCpClient (conductors exampleWorld (cl_conductor exampleCell)))
                  (CallAppInterface 30000 (CallZomeMsg ?signed))),
           Hangs)" for t
    by (rule cellCallZome_unanswered[where w=exampleWorld and cell=exampleCell and port=30000
          and remote=silentServer and signZomeCall=exampleSign and request=exampleRequest
          and signed="?signed", OF 1 2 3 4 5])
  show ?thesis
    unfolding run
    by (simp add: clientCall_def call_def Let_def example_defs getCallableCell_def cellRequest_def
          onMessage_def responseResolve_def deleteRequestPromise_def settle_def)
qed

subsection \<open>Attaching an app interface\<close>

text \<open>
  Claim C8, as amended.  A conductor handle keeps at most one app interface port, in one
  optional field.  \<^verbatim>\<open>attachAppInterface\<close> does not look at it: whatever it holds, the
  attach request is sent, and when the server answers that the interface is attached,
  the call returns the port of the answer and the field holds the port requested (the
  one given, or else the free one found).
\<close>

theorem attach_replaces_port:
  assumes "remote (requestId w)
             (adminRequest w this
                (AttachAppInterfaceMsg (case request of Some p \<Rightarrow> p | None \<Rightarrow> freePort))) =
             Some (Success0 (SerBytes (Inr (AppInterfaceAttached attached))))"
  shows "snd (attachAppInterface remote freePort w this request) = Returned attached \<and>
         appInterfacePort (conductors (fst (attachAppInterface remote freePort w this request)) this) =
           Some (case request of Some p \<Rightarrow> p | None \<Rightarrow> freePort) \<and>
         effects (clients (fst (attachAppInterface remote freePort w this request))
                    (tryCpClient (conductors w this))) =
           effects (clients w (tryCpClient (conductors w this))) @
           [WsSend (requestId w)
              (adminRequest w this
                 (AttachAppInterfaceMsg (case request of Some p \<Rightarrow> p | None \<Rightarrow> freePort))),
            ResponseResolve (length (promises (clients w (tryCpClient (conductors w this)))))
              (SuccessApi (AppInterfaceAttached attached)),
            Delete (requestId w)]"
  using assms
  by (simp add: attachAppInterface_def callAdminApi_def andThen_def await_defs assertApiResponse_def
        nth_append)


theorem attach_replaces_port_witness:
  "appInterfacePort (conductors exampleWorld 0) = Some 30000 \<and>
   snd (attachAppInterface exampleServer 31000 exampleWorld 0 (Some 30001)) = Returned 30001 \<and>
   appInterfacePort (conductors (fst (attachAppInterface exampleServer 31000 exampleWorld 0 (Some 30001))) 0) =
     Some 30001"
proof -
  have r: "exampleServer (requestId exampleWorld)
             (adminRequest exampleWorld 0
                (AttachAppInterfaceMsg (case Some 30001 of Some p \<Rightarrow> p | None \<Rightarrow> 31000))) =
             Some (Success0 (SerBytes (Inr (AppInterfaceAttached 30001))))"
    by (simp add: adminRequest_def)
  have "appInterfacePort (conductors exampleWorld 0) = Some 30000"
    by (simp add: example_defs)
  with attach_replaces_port[where remote=exampleServer and w=exampleWorld and this=0
      and request="Some 30001" and freePort=31000 and attached=30001] r
  show ?thesis by simp
qed


text \<open>
  Claim C8 fails as stated: after attaching port 30000, attaching port 30001 succeeds
  and replaces the port kept.
\<close>

theorem attach_twice_counterexample:
  "appInterfacePort (conductors (fst (attachAppInterface exampleServer 31000 initialWorld 0 (Some 30000))) 0) =
     Some 30000 \<and>
   snd (attachAppInterface exampleServer 31000
          (fst (attachAppInterface exampleServer 31000 initialWorld 0 (Some 30000))) 0 (Some 30001)) =
     Returned 30001 \<and>
   appInterfacePort
     (conductors
        (fst (attachAppInterface exampleServer 31000
                (fst (attachAppInterface exampleServer 31000 initialWorld 0 (Some 30000))) 0 (Some 30001)))
        0) = Some 30001"
  by (simp add: attachAppInterface_def callAdminApi_def andThen_def await_defs assertApiResponse_def
        adminRequest_def nth_append example_defs)


subsection \<open>Installing an app\<close>



















subsection \<open>Exchanging agent infos\<close>

text \<open>
  Claim C9 at two conductors, each on its own client.  The infos of each conductor are
  fetched once and sent to the other conductor only.  The function resolves when the
  second \<^verbatim>\<open>agent_info\<close> response has been handled.  At that moment the
  \<^verbatim>\<open>add_agent_info\<close> call that carries the infos of conductor 0 to conductor 1 has
  been sent with id 2 but not answered: its promise is pending and its slot is in the
  pending-request map of the client.  The example server refuses the call; when its
  response arrives, the promise is rejected, after the function has resolved.
\<close>

theorem add_all_agents_resolves_early:
  "snd (addAllAgentsToAllConductors exampleServer initialWorld [0, 1]) = Returned () \<and>
   effects (clients (fst (addAllAgentsToAllConductors exampleServer initialWorld [0, 1])) 0) =
     [WsSend 0 (CallAdminInterface ''conductor-0'' (AgentInfoMsg None)),
      ResponseResolve 0 (SuccessApi (AgentInfoResponse [[0]])),
      Delete 0,
      WsSend 3 (CallAdminInterface ''conductor-0'' (AddAgentInfoMsg [[1]]))] \<and>
   effects (clients (fst (addAllAgentsToAllConductors exampleServer initialWorld [0, 1])) 1) =
     [WsSend 1 (CallAdminInterface ''conductor-1'' (AgentInfoMsg None)),
      WsSend 2 (CallAdminInterface ''conductor-1'' (AddAgentInfoMsg [[0]])),
      ResponseResolve 0 (SuccessApi (AgentInfoResponse [[1]])),
      Delete 1] \<and>
   promises (clients (fst (addAllAgentsToAllConductors exampleServer initialWorld [0, 1])) 1) =
     [Fulfilled (SuccessApi (AgentInfoResponse [[1]])), Pending] \<and>
   requestPromises (clients (fst (addAllAgentsToAllConductors exampleServer initialWorld [0, 1])) 1) 2 =
     Some 1 \<and>
   exampleServer 2 (CallAdminInterface ''conductor-1'' (AddAgentInfoMsg [[0]])) = Some (Error1 ''refused'') \<and>
   promises
     (clients
        (clientMessage (fst (addAllAgentsToAllConductors exampleServer initialWorld [0, 1])) 1
           (Inr (ResponseWrapper 2 (Error1 ''refused''))))
        1) =
     [Fulfilled (SuccessApi (AgentInfoResponse [[1]])), Rejected (Reason ''refused'')]"
  by (simp add: addAllAgentsToAllConductors_def admin_defs await_defs example_defs assertAgentInfo_def
        nth_append upt_rec)


end
